theory Spec2Isabelle
  imports Complex_Main
begin

section \<open>JavaScript numbers and strings\<close>

text \<open>
  The passes of pandoc-svg compute on ECMAScript Numbers (IEEE 754 binary64) and turn the
  results back into attribute strings.  A finite Number is modelled by the rational it
  denotes; every arithmetic operation rounds its exact result to the nearest binary64
  value, ties to even, as the language prescribes.  The two zeros are identified: the code
  only ever prints a zero or passes it through \<open>round\<close>, and both forget the sign.
  Strings are lists of code units (\<open>char\<close>).
\<close>

datatype jsnum = Num rat | NaN | PosInf | NegInf

datatype js_error = TypeError

definition pow2 :: "int \<Rightarrow> rat" where
  "pow2 e = (if 0 \<le> e then 2 ^ nat e else 1 / 2 ^ nat (- e))"

definition pow10 :: "int \<Rightarrow> rat" where
  "pow10 e = (if 0 \<le> e then 10 ^ nat e else 1 / 10 ^ nat (- e))"

function binlen :: "int \<Rightarrow> int" where
  \<comment> \<open>the number of binary digits of a positive integer\<close>
  "binlen a = (if 0 < a then binlen (a div 2) + 1 else 0)"
  by pat_completeness auto
termination
  by (relation "measure nat") auto

function declen :: "int \<Rightarrow> int" where
  \<comment> \<open>the number of decimal digits of a positive integer\<close>
  "declen a = (if 0 < a then declen (a div 10) + 1 else 0)"
  by pat_completeness auto
termination
  by (relation "measure nat") auto

definition ilog2 :: "rat \<Rightarrow> int" where
  \<comment> \<open>for \<open>0 < q\<close>: the \<open>e\<close> with \<open>2 ^ e \<le> q < 2 ^ (e + 1)\<close>\<close>
  "ilog2 q = (if 1 \<le> q then binlen \<lfloor>q\<rfloor> - 1 else - binlen (\<lceil>1 / q\<rceil> - 1))"

definition ilog10 :: "rat \<Rightarrow> int" where
  \<comment> \<open>for \<open>0 < q\<close>: the \<open>e\<close> with \<open>10 ^ e \<le> q < 10 ^ (e + 1)\<close>\<close>
  "ilog10 q = (if 1 \<le> q then declen \<lfloor>q\<rfloor> - 1 else - declen (\<lceil>1 / q\<rceil> - 1))"

definition round_half_even :: "rat \<Rightarrow> int" where
  "round_half_even r = (let f = \<lfloor>r\<rfloor>; d = r - of_int f in
     if d < 1 / 2 then f else if 1 / 2 < d then f + 1 else if even f then f else f + 1)"

definition fl_pos :: "rat \<Rightarrow> jsnum" where
  \<comment> \<open>binary64 rounding of a positive rational: 53 significant bits, subnormals below
      \<open>2 ^ -1022\<close>, overflow to \<open>Infinity\<close>\<close>
  "fl_pos q = (let e = max (ilog2 q) (- 1022); u = pow2 (e - 52);
                   r = of_int (round_half_even (q / u)) * u
               in if pow2 1024 \<le> r then PosInf else Num r)"

fun js_neg :: "jsnum \<Rightarrow> jsnum" where
  "js_neg (Num x) = Num (- x)"
| "js_neg NaN = NaN"
| "js_neg PosInf = NegInf"
| "js_neg NegInf = PosInf"

definition fl :: "rat \<Rightarrow> jsnum" where
  "fl q = (if q = 0 then Num 0 else if 0 < q then fl_pos q else js_neg (fl_pos (- q)))"

fun js_mul :: "jsnum \<Rightarrow> jsnum \<Rightarrow> jsnum" where
  "js_mul (Num a) (Num b) = fl (a * b)"
| "js_mul NaN _ = NaN"
| "js_mul _ NaN = NaN"
| "js_mul (Num a) PosInf = (if a = 0 then NaN else if 0 < a then PosInf else NegInf)"
| "js_mul (Num a) NegInf = (if a = 0 then NaN else if 0 < a then NegInf else PosInf)"
| "js_mul PosInf (Num b) = (if b = 0 then NaN else if 0 < b then PosInf else NegInf)"
| "js_mul NegInf (Num b) = (if b = 0 then NaN else if 0 < b then NegInf else PosInf)"
| "js_mul PosInf PosInf = PosInf"
| "js_mul PosInf NegInf = NegInf"
| "js_mul NegInf PosInf = NegInf"
| "js_mul NegInf NegInf = PosInf"

fun js_div :: "jsnum \<Rightarrow> jsnum \<Rightarrow> jsnum" where
  "js_div (Num a) (Num b) =
     (if b = 0 then (if a = 0 then NaN else if 0 < a then PosInf else NegInf)
      else fl (a / b))"
| "js_div NaN _ = NaN"
| "js_div _ NaN = NaN"
| "js_div (Num a) PosInf = Num 0"
| "js_div (Num a) NegInf = Num 0"
| "js_div PosInf (Num b) = (if 0 \<le> b then PosInf else NegInf)"
| "js_div NegInf (Num b) = (if 0 \<le> b then NegInf else PosInf)"
| "js_div PosInf PosInf = NaN"
| "js_div PosInf NegInf = NaN"
| "js_div NegInf PosInf = NaN"
| "js_div NegInf NegInf = NaN"

fun js_add :: "jsnum \<Rightarrow> jsnum \<Rightarrow> jsnum" where
  "js_add (Num a) (Num b) = fl (a + b)"
| "js_add NaN _ = NaN"
| "js_add _ NaN = NaN"
| "js_add (Num a) PosInf = PosInf"
| "js_add (Num a) NegInf = NegInf"
| "js_add PosInf (Num b) = PosInf"
| "js_add NegInf (Num b) = NegInf"
| "js_add PosInf PosInf = PosInf"
| "js_add PosInf NegInf = NaN"
| "js_add NegInf PosInf = NaN"
| "js_add NegInf NegInf = NegInf"

fun Math_ceil :: "jsnum \<Rightarrow> jsnum" where
  "Math_ceil (Num x) = Num (of_int \<lceil>x\<rceil>)"
| "Math_ceil n = n"

subsection \<open>\<open>utils.round\<close>: \<open>parseFloat(number.toPrecision(10))\<close>\<close>

definition toPrecision10 :: "rat \<Rightarrow> rat" where
  \<comment> \<open>the decimal that \<open>x.toPrecision(10)\<close> prints, for \<open>0 < x\<close>: ten significant digits,
      the larger candidate on a tie; fixed or exponent notation denote the same value\<close>
  "toPrecision10 x = (let u = pow10 (ilog10 x - 9) in of_int \<lfloor>x / u + 1 / 2\<rfloor> * u)"

fun round_js :: "jsnum \<Rightarrow> jsnum" where
  "round_js (Num x) =
     (if x = 0 then Num 0
      else if 0 < x then fl (toPrecision10 x)
      else js_neg (fl (toPrecision10 (- x))))"
| "round_js n = n"

subsection \<open>Number to String\<close>

definition is_digit :: "char \<Rightarrow> bool" where
  "is_digit c = (c \<in> set ''0123456789'')"

definition digit_val :: "char \<Rightarrow> int" where
  "digit_val c = of_char c - 48"

definition digit_char :: "int \<Rightarrow> char" where
  "digit_char d = ''0123456789'' ! nat d"

function digits_of :: "int \<Rightarrow> string" where
  \<comment> \<open>the decimal digits of a natural number\<close>
  "digits_of n = (if n < 10 then [digit_char n] else digits_of (n div 10) @ [digit_char (n mod 10)])"
  by pat_completeness auto
termination
  by (relation "measure nat") auto

fun shortest_digits :: "rat \<Rightarrow> int \<Rightarrow> nat list \<Rightarrow> (int \<times> nat) option" where
  \<comment> \<open>the first digit count \<open>k\<close> of the list for which a \<open>k\<close>-digit decimal
      \<open>s * 10 ^ (e + 1 - k)\<close> reads back as \<open>x\<close>; of two such decimals the closer one,
      the even one on a tie\<close>
  "shortest_digits x e [] = None"
| "shortest_digits x e (k # ks) =
     (let u = pow10 (e + 1 - int k); lo = \<lfloor>x / u\<rfloor>; hi = lo + 1;
          okl = (fl (of_int lo * u) = Num x); okh = (fl (of_int hi * u) = Num x);
          dl = x - of_int lo * u; dh = of_int hi * u - x
      in if okl \<and> okh then
           (if dl < dh \<or> (dl = dh \<and> even lo) then Some (lo, k) else Some (hi, k))
         else if okl then Some (lo, k)
         else if okh then Some (hi, k)
         else shortest_digits x e ks)"

definition strip_zeros :: "string \<Rightarrow> string" where
  "strip_zeros ds = rev (dropWhile (\<lambda>c. c = CHR ''0'') (rev ds))"

definition exponent_string :: "int \<Rightarrow> string" where
  "exponent_string n = (if 0 \<le> n then ''+'' @ digits_of n else ''-'' @ digits_of (- n))"

definition format_number :: "string \<Rightarrow> int \<Rightarrow> string" where
  \<comment> \<open>Number::toString for the digits \<open>ds\<close> and the decimal exponent \<open>n\<close>: the value is
      \<open>0.ds * 10 ^ n\<close>\<close>
  "format_number ds n = (let k = int (length ds) in
     if k \<le> n \<and> n \<le> 21 then ds @ replicate (nat (n - k)) CHR ''0''
     else if 0 < n \<and> n \<le> 21 then take (nat n) ds @ ''.'' @ drop (nat n) ds
     else if - 6 < n \<and> n \<le> 0 then ''0.'' @ replicate (nat (- n)) CHR ''0'' @ ds
     else if k = 1 then ds @ ''e'' @ exponent_string (n - 1)
     else take 1 ds @ ''.'' @ drop 1 ds @ ''e'' @ exponent_string (n - 1))"

definition positive_toString :: "rat \<Rightarrow> string" where
  "positive_toString x = (let e = ilog10 x in
     case shortest_digits x e [1, 2, 3, 4, 5, 6, 7, 8, 9, 10, 11, 12, 13, 14, 15, 16, 17] of
       None \<Rightarrow> []
     | Some (s, k) \<Rightarrow>
         (let ds = digits_of s
          in format_number (strip_zeros ds) (e + 1 + (int (length ds) - int k))))"

fun js_toString :: "jsnum \<Rightarrow> string" where
  "js_toString (Num x) =
     (if x = 0 then ''0''
      else if 0 < x then positive_toString x
      else ''-'' @ positive_toString (- x))"
| "js_toString NaN = ''NaN''"
| "js_toString PosInf = ''Infinity''"
| "js_toString NegInf = ''-Infinity''"

subsection \<open>String to Number\<close>

definition is_ws :: "char \<Rightarrow> bool" where
  \<comment> \<open>white space and line terminators among the code units below 256\<close>
  "is_ws c = (of_char c \<in> {9, 10, 11, 12, 13, 32, 160 :: nat})"

definition trim :: "string \<Rightarrow> string" where
  "trim s = rev (dropWhile is_ws (rev (dropWhile is_ws s)))"

definition decimal_value :: "string \<Rightarrow> int" where
  "decimal_value ds = foldl (\<lambda>a c. 10 * a + digit_val c) 0 ds"

definition hex_val :: "char \<Rightarrow> int option" where
  "hex_val c = (if is_digit c then Some (digit_val c)
     else if c \<in> set ''abcdef'' then Some (of_char c - 87)
     else if c \<in> set ''ABCDEF'' then Some (of_char c - 55)
     else None)"

fun radix_value :: "int \<Rightarrow> int \<Rightarrow> string \<Rightarrow> int option" where
  "radix_value b a [] = Some a"
| "radix_value b a (c # cs) =
     (case hex_val c of
        None \<Rightarrow> None
      | Some d \<Rightarrow> if d < b then radix_value b (b * a + d) cs else None)"

definition non_decimal_literal :: "string \<Rightarrow> int option" where
  "non_decimal_literal s =
     (if length s < 3 \<or> hd s \<noteq> CHR ''0'' then None
      else if s ! 1 \<in> set ''xX'' then radix_value 16 0 (drop 2 s)
      else if s ! 1 \<in> set ''oO'' then radix_value 8 0 (drop 2 s)
      else if s ! 1 \<in> set ''bB'' then radix_value 2 0 (drop 2 s)
      else None)"

definition exponent_part :: "string \<Rightarrow> int option" where
  \<comment> \<open>what follows the mantissa: nothing, or \<open>e\<close>, an optional sign and digits\<close>
  "exponent_part s =
     (case s of
        [] \<Rightarrow> Some 0
      | c # r \<Rightarrow>
          if c \<notin> set ''eE'' then None
          else (let neg = (r \<noteq> [] \<and> hd r = CHR ''-'');
                    ds = (if r \<noteq> [] \<and> hd r \<in> set ''+-'' then tl r else r)
                in if ds = [] \<or> \<not> list_all is_digit ds then None
                   else Some (if neg then - decimal_value ds else decimal_value ds)))"

definition unsigned_decimal :: "string \<Rightarrow> jsnum" where
  \<comment> \<open>StrUnsignedDecimalLiteral: \<open>Infinity\<close>, \<open>12\<close>, \<open>12.\<close>, \<open>12.5\<close>, \<open>.5\<close>, each with an
      optional exponent; anything else is \<open>NaN\<close>\<close>
  "unsigned_decimal s =
     (if s = ''Infinity'' then PosInf
      else (let ip = takeWhile is_digit s; r1 = dropWhile is_digit s;
                dot = (r1 \<noteq> [] \<and> hd r1 = CHR ''.'');
                fp = (if dot then takeWhile is_digit (tl r1) else []);
                r2 = (if dot then dropWhile is_digit (tl r1) else r1)
            in if ip = [] \<and> fp = [] then NaN
               else (case exponent_part r2 of
                       None \<Rightarrow> NaN
                     | Some ex \<Rightarrow>
                         fl (of_int (decimal_value (ip @ fp)) * pow10 (ex - int (length fp))))))"

definition js_Number :: "string \<Rightarrow> jsnum" where
  \<comment> \<open>\<open>Number(s)\<close> for a string: StringToNumber\<close>
  "js_Number str = (let s = trim str in
     if s = [] then Num 0
     else (case non_decimal_literal s of
             Some n \<Rightarrow> fl (of_int n)
           | None \<Rightarrow>
               if hd s = CHR ''-'' then js_neg (unsigned_decimal (tl s))
               else if hd s = CHR ''+'' then unsigned_decimal (tl s)
               else unsigned_decimal s))"

fun replace_first :: "string \<Rightarrow> string \<Rightarrow> string \<Rightarrow> string" where
  \<comment> \<open>\<open>s.replace(pat, rep)\<close> for a string pattern and a replacement without \<open>$\<close>: the first
      occurrence only\<close>
  "replace_first pat rep [] = (if pat = [] then rep else [])"
| "replace_first pat rep (c # cs) =
     (if take (length pat) (c # cs) = pat then rep @ drop (length pat) (c # cs)
      else c # replace_first pat rep cs)"

datatype jsval = JSString string | JSNumber jsnum

fun ToNumber :: "jsval \<Rightarrow> jsnum" where
  "ToNumber (JSString s) = js_Number s"
| "ToNumber (JSNumber n) = n"

section \<open>The document tree\<close>

text \<open>
  An element carries its tag name, its attributes other than \<open>style\<close> in document order,
  its inline style declaration and its child nodes.  The style is \<open>None\<close> when the
  element has no \<open>style\<close> attribute, and otherwise the ordered list of its declarations
  (property, value, priority) as the CSS object model presents them; values are kept as they
  are written.
\<close>

type_synonym attrs = "(string \<times> string) list"

type_synonym declarations = "(string \<times> string \<times> string) list"

datatype node = Element string attrs "declarations option" "node list" | Text string

fun getAttribute :: "node \<Rightarrow> string \<Rightarrow> string option" where
  "getAttribute (Element t as st cs) k = map_of as k"
| "getAttribute (Text s) k = None"

fun hasAttribute :: "node \<Rightarrow> string \<Rightarrow> bool" where
  "hasAttribute (Element t as st cs) k = (map_of as k \<noteq> None)"
| "hasAttribute (Text s) k = False"

fun update_attr :: "string \<Rightarrow> string \<Rightarrow> attrs \<Rightarrow> attrs" where
  "update_attr k v [] = [(k, v)]"
| "update_attr k v (p # ps) = (if fst p = k then (k, v) # ps else p # update_attr k v ps)"

fun setAttribute :: "string \<Rightarrow> string \<Rightarrow> node \<Rightarrow> node" where
  "setAttribute k v (Element t as st cs) = Element t (update_attr k v as) st cs"
| "setAttribute k v (Text s) = Text s"

fun removeAttribute :: "string \<Rightarrow> node \<Rightarrow> node" where
  "removeAttribute k (Element t as st cs) = Element t (filter (\<lambda>p. fst p \<noteq> k) as) st cs"
| "removeAttribute k (Text s) = Text s"

fun has_tag :: "string \<Rightarrow> node \<Rightarrow> bool" where
  "has_tag tag (Element t as st cs) = (t = tag)"
| "has_tag tag (Text s) = False"

fun querySelector :: "(node \<Rightarrow> bool) \<Rightarrow> node \<Rightarrow> node option"
  and querySelector_list :: "(node \<Rightarrow> bool) \<Rightarrow> node list \<Rightarrow> node option" where
  \<comment> \<open>the first matching element in document order\<close>
  "querySelector p (Text s) = None"
| "querySelector p (Element t as st cs) =
     (if p (Element t as st cs) then Some (Element t as st cs) else querySelector_list p cs)"
| "querySelector_list p [] = None"
| "querySelector_list p (c # cs) =
     (case querySelector p c of Some e \<Rightarrow> Some e | None \<Rightarrow> querySelector_list p cs)"

fun modify_first :: "(node \<Rightarrow> bool) \<Rightarrow> (node \<Rightarrow> node) \<Rightarrow> node \<Rightarrow> node option"
  and modify_first_list :: "(node \<Rightarrow> bool) \<Rightarrow> (node \<Rightarrow> node) \<Rightarrow> node list \<Rightarrow> node list option" where
  \<comment> \<open>the tree after a mutation \<open>f\<close> of the element that \<open>querySelector p\<close> finds\<close>
  "modify_first p f (Text s) = None"
| "modify_first p f (Element t as st cs) =
     (if p (Element t as st cs) then Some (f (Element t as st cs))
      else map_option (Element t as st) (modify_first_list p f cs))"
| "modify_first_list p f [] = None"
| "modify_first_list p f (c # cs) =
     (case modify_first p f c of
        Some c' \<Rightarrow> Some (c' # cs)
      | None \<Rightarrow> map_option ((#) c) (modify_first_list p f cs))"

section \<open>\<open>resize.js\<close>\<close>

record dimObj =
  scaleFactor :: "jsval option"
  width :: "string option"
  height :: "string option"

definition is_digit_or_dot :: "char \<Rightarrow> bool" where
  "is_digit_or_dot c = (is_digit c \<or> c = CHR ''.'')"

definition dimRegex :: "string \<Rightarrow> (string \<times> string) option" where
  \<comment> \<open>\<open>/^(?<val>[\d\.]+)(?<unit>[^\d\.]*)$/.exec(s)\<close>: the groups \<open>val\<close> and \<open>unit\<close>, or
      \<open>None\<close> for \<open>null\<close>.  The two character classes are complements, so \<open>val\<close> is the
      longest prefix of digits and dots\<close>
  "dimRegex s =
     (if takeWhile is_digit_or_dot s \<noteq> [] \<and> list_all (\<lambda>c. \<not> is_digit_or_dot c) (dropWhile is_digit_or_dot s)
      then Some (takeWhile is_digit_or_dot s, dropWhile is_digit_or_dot s)
      else None)"

definition String_of :: "string option \<Rightarrow> string" where
  \<comment> \<open>the string a regular expression is run on: \<open>getAttribute\<close> gives \<open>null\<close> for a
      missing attribute, which reads \<open>null\<close>\<close>
  "String_of a = (case a of None \<Rightarrow> ''null'' | Some s \<Rightarrow> s)"

definition abs2PX :: "(string \<times> jsnum) list" where
  "abs2PX =
     [('''', Num 1),
      (''px'', Num 1),
      (''cm'', fl (378 / 10)),
      (''mm'', js_mul (fl (1 / 10)) (fl (378 / 10))),
      (''in'', Num 96),
      (''pt'', js_mul (js_div (Num 1) (Num 72)) (Num 96)),
      (''pc'', js_mul (js_div (Num 1) (Num 6)) (Num 96)),
      (''Q'', js_mul (js_div (Num 1) (Num 40)) (fl (378 / 10)))]"

definition Object_prototype_keys :: "string list" where
  \<comment> \<open>the properties every object literal inherits\<close>
  "Object_prototype_keys =
     [''constructor'', ''__defineGetter__'', ''__defineSetter__'', ''hasOwnProperty'',
      ''__lookupGetter__'', ''__lookupSetter__'', ''isPrototypeOf'', ''propertyIsEnumerable'',
      ''toString'', ''valueOf'', ''__proto__'', ''toLocaleString'']"

definition in_abs2PX :: "string \<Rightarrow> bool" where
  \<comment> \<open>\<open>unit in abs2PX\<close>: own and inherited properties\<close>
  "in_abs2PX u = (u \<in> set (map fst abs2PX) \<or> u \<in> set Object_prototype_keys)"

definition times_abs2PX :: "jsnum \<Rightarrow> string \<Rightarrow> jsnum" where
  \<comment> \<open>\<open>val * abs2PX[unit]\<close>; an inherited member is a function or an object, which
      multiplication reads as \<open>NaN\<close>\<close>
  "times_abs2PX v u = (case map_of abs2PX u of Some f \<Rightarrow> js_mul v f | None \<Rightarrow> NaN)"

definition relUnits :: "string list" where
  "relUnits =
     [''em'', ''ex'', ''ch'', ''rem'', ''lh'', ''rlh'', ''vw'', ''vh'', ''vmin'', ''vmax'', ''vb'',
      ''vi'', ''svw'', ''svh'', ''lvw'', ''lvh'', ''dvw'', ''dvh'']"

definition dimValid :: "string option \<Rightarrow> bool" where
  "dimValid d =
     (case dimRegex (String_of d) of
        None \<Rightarrow> False
      | Some (val, unit) \<Rightarrow> in_abs2PX unit \<or> unit \<in> set relUnits)"

definition pandocDimValid :: "string \<Rightarrow> bool" where
  "pandocDimValid d =
     (case dimRegex d of
        None \<Rightarrow> False
      | Some (val, unit) \<Rightarrow> unit \<in> set [''px'', ''cm'', ''mm'', ''in'', ''inch'', ''%''])"

definition applyWidthHeight :: "string \<Rightarrow> string \<Rightarrow> node \<Rightarrow> node" where
  "applyWidthHeight w h svg = setAttribute ''height'' h (setAttribute ''width'' w svg)"

definition aspect_width :: "jsnum \<Rightarrow> string \<Rightarrow> js_error + (string \<times> string) option" where
  \<comment> \<open>only a target height is given\<close>
  "aspect_width aspectRatio height0 =
     (if \<not> pandocDimValid height0 then Inr None
      else (let height1 = replace_first ''inch'' ''in'' height0 in
            case dimRegex height1 of
              None \<Rightarrow> Inl TypeError
            | Some (val, unit) \<Rightarrow>
                Inr (Some (js_toString (round_js (js_mul (js_Number val) aspectRatio)) @ unit,
                           height1))))"

definition aspect_height :: "jsnum \<Rightarrow> string \<Rightarrow> js_error + (string \<times> string) option" where
  \<comment> \<open>only a target width is given\<close>
  "aspect_height aspectRatio width0 =
     (if \<not> pandocDimValid width0 then Inr None
      else (let width1 = replace_first ''inch'' ''in'' width0 in
            case dimRegex width1 of
              None \<Rightarrow> Inl TypeError
            | Some (val, unit) \<Rightarrow>
                Inr (Some (width1,
                           js_toString (round_js (js_div (js_Number val) aspectRatio)) @ unit))))"

definition new_dims ::
  "string option \<Rightarrow> string option \<Rightarrow> dimObj \<Rightarrow> js_error + (string \<times> string) option" where
  \<comment> \<open>the body of \<open>resize\<close> between reading the two attributes and writing them: the new
      \<open>width\<close> and \<open>height\<close> strings, \<open>None\<close> where the function returns without writing\<close>
  "new_dims svgWidthStr svgHeightStr dimObj =
     (let sf = (case scaleFactor dimObj of None \<Rightarrow> Num 1 | Some v \<Rightarrow> ToNumber v) in
      if \<not> dimValid svgWidthStr \<or> \<not> dimValid svgHeightStr then Inr None
      else
        (case (dimRegex (String_of svgWidthStr), dimRegex (String_of svgHeightStr)) of
           (Some (wval, svgWidthUnit), Some (hval, svgHeightUnit)) \<Rightarrow>
             (let svgWidthVal = js_Number wval; svgHeightVal = js_Number hval in
              if svgWidthUnit \<in> set relUnits \<or> svgHeightUnit \<in> set relUnits then
                Inr (Some (js_toString (round_js (js_mul sf svgWidthVal)) @ svgWidthUnit,
                           js_toString (round_js (js_mul sf svgHeightVal)) @ svgHeightUnit))
              else
                (let svgWidthInPX = round_js (times_abs2PX svgWidthVal svgWidthUnit);
                     svgHeightInPX = round_js (times_abs2PX svgHeightVal svgHeightUnit)
                 in case (width dimObj, height dimObj) of
                      (None, None) \<Rightarrow>
                        Inr (Some (js_toString (round_js (js_div (js_mul sf svgWidthInPX) (Num 16))) @ ''em'',
                                   js_toString (round_js (js_div (js_mul sf svgHeightInPX) (Num 16))) @ ''em''))
                    | (None, Some h) \<Rightarrow> aspect_width (js_div svgWidthInPX svgHeightInPX) h
                    | (Some w, None) \<Rightarrow> aspect_height (js_div svgWidthInPX svgHeightInPX) w
                    | (Some w, Some h) \<Rightarrow>
                        if \<not> pandocDimValid w \<or> \<not> pandocDimValid h then Inr None
                        else Inr (Some (replace_first ''inch'' ''in'' w,
                                        replace_first ''inch'' ''in'' h))))
         | _ \<Rightarrow> Inl TypeError))"

definition resize :: "node \<Rightarrow> dimObj \<Rightarrow> js_error + node" where
  \<comment> \<open>\<open>resize(svgDOM, dimObj)\<close>: the document after the call, or the exception it throws
      (\<open>querySelector\<close> gives \<open>null\<close> in a document without an \<open>svg\<close> element)\<close>
  "resize svgDOM dimObj =
     (case querySelector (has_tag ''svg'') svgDOM of
        None \<Rightarrow> Inl TypeError
      | Some svg \<Rightarrow>
          (case new_dims (getAttribute svg ''width'') (getAttribute svg ''height'') dimObj of
             Inl e \<Rightarrow> Inl e
           | Inr None \<Rightarrow> Inr svgDOM
           | Inr (Some (w, h)) \<Rightarrow>
               (case modify_first (has_tag ''svg'') (applyWidthHeight w h) svgDOM of
                  None \<Rightarrow> Inl TypeError
                | Some d \<Rightarrow> Inr d)))"

section \<open>Inline styles\<close>

fun style_of :: "node \<Rightarrow> declarations option" where
  "style_of (Element t as st cs) = st"
| "style_of (Text s) = None"

definition getPropertyValue :: "declarations option \<Rightarrow> string \<Rightarrow> string" where
  \<comment> \<open>the empty string for a property that is not set\<close>
  "getPropertyValue st p =
     (case st of
        None \<Rightarrow> []
      | Some ds \<Rightarrow> (case map_of ds p of None \<Rightarrow> [] | Some (v, prio) \<Rightarrow> v))"

definition getPropertyPriority :: "declarations option \<Rightarrow> string \<Rightarrow> string" where
  "getPropertyPriority st p =
     (case st of
        None \<Rightarrow> []
      | Some ds \<Rightarrow> (case map_of ds p of None \<Rightarrow> [] | Some (v, prio) \<Rightarrow> prio))"

fun update_decl :: "string \<Rightarrow> string \<Rightarrow> declarations \<Rightarrow> declarations" where
  "update_decl p v [] = [(p, v, [])]"
| "update_decl p v (d # ds) = (if fst d = p then (p, v, []) # ds else d # update_decl p v ds)"

definition setProperty :: "string \<Rightarrow> string \<Rightarrow> declarations option \<Rightarrow> declarations option" where
  \<comment> \<open>\<open>style.setProperty(p, v)\<close> for a non-empty value: no priority\<close>
  "setProperty p v st = Some (update_decl p v (case st of None \<Rightarrow> [] | Some ds \<Rightarrow> ds))"

fun set_style :: "declarations option \<Rightarrow> node \<Rightarrow> node" where
  "set_style st' (Element t as st cs) = Element t as st' cs"
| "set_style st' (Text s) = Text s"

fun is_element :: "node \<Rightarrow> bool" where
  "is_element (Element t as st cs) = True"
| "is_element (Text s) = False"

fun childNodes :: "node \<Rightarrow> node list" where
  "childNodes (Element t as st cs) = cs"
| "childNodes (Text s) = []"

definition children :: "node \<Rightarrow> node list" where
  \<comment> \<open>\<open>elt.children\<close>: the child elements\<close>
  "children elt = filter is_element (childNodes elt)"

section \<open>\<open>optimize.js\<close>\<close>

text \<open>
  The collaborators of the passes are parameters of the model: the serializer behind
  \<open>innerHTML\<close>, the parser behind the \<open>innerHTML\<close> setter, \<open>pandoc\<close>, and the round trip
  through \<open>svgo\<close> (serialize, minify, parse again) that \<open>optimize.main\<close> starts with.
\<close>

record env =
  innerHTML :: "node \<Rightarrow> string"
  parseHTML :: "string \<Rightarrow> node list"
  pandoc :: "string \<Rightarrow> string \<Rightarrow> string \<Rightarrow> string \<Rightarrow> string"
  svgo :: "node \<Rightarrow> node"

definition is_num_char :: "char \<Rightarrow> bool" where
  \<comment> \<open>the class \<open>[-\d\.]\<close>\<close>
  "is_num_char c = (c = CHR ''-'' \<or> is_digit c \<or> c = CHR ''.'')"

definition translate_here :: "string \<Rightarrow> (string \<times> string \<times> string) option" where
  \<comment> \<open>\<open>translate\((?<x>[-\d\.]*)\s+?(?<y>[-\d\.]*)\)\s*\<close> matched at the head of \<open>s\<close>: the
      groups and what follows the match.  The lazy \<open>\s+?\<close> ends up with the whole run of
      white space, since \<open>y\<close> and the closing parenthesis cannot start with any\<close>
  "translate_here s =
     (if take 10 s = ''translate(''
      then (let r0 = drop 10 s;
                x = takeWhile is_num_char r0; r1 = dropWhile is_num_char r0;
                r2 = dropWhile is_ws r1;
                y = takeWhile is_num_char r2; r3 = dropWhile is_num_char r2
            in if r1 \<noteq> [] \<and> is_ws (hd r1) \<and> r3 \<noteq> [] \<and> hd r3 = CHR '')''
               then Some (x, y, dropWhile is_ws (tl r3))
               else None)
      else None)"

fun translateRegex :: "string \<Rightarrow> (string \<times> string \<times> string \<times> string) option" where
  \<comment> \<open>the first match of \<open>translateRegex\<close> in \<open>s\<close>: what precedes it, \<open>x\<close>, \<open>y\<close>, and what
      follows it.  The leading \<open>\s*\<close> takes the white space before \<open>translate\<close>\<close>
  "translateRegex [] = None"
| "translateRegex (c # cs) =
     (case translate_here (dropWhile is_ws (c # cs)) of
        Some (x, y, rest) \<Rightarrow> Some ([], x, y, rest)
      | None \<Rightarrow>
          (case translateRegex cs of
             None \<Rightarrow> None
           | Some (pre, x, y, rest) \<Rightarrow> Some (c # pre, x, y, rest)))"

definition hasXY :: "node \<Rightarrow> bool" where
  "hasXY elt = (hasAttribute elt ''x'' \<and> hasAttribute elt ''y'')"

definition allChildrenHaveXY :: "node list \<Rightarrow> bool" where
  "allChildrenHaveXY cs = list_all hasXY cs"

definition Number_of :: "string option \<Rightarrow> jsnum" where
  \<comment> \<open>\<open>Number(elt.getAttribute(k))\<close>; \<open>Number(null)\<close> is 0\<close>
  "Number_of a = (case a of None \<Rightarrow> Num 0 | Some s \<Rightarrow> js_Number s)"

definition applyTranslation :: "jsnum \<Rightarrow> jsnum \<Rightarrow> node \<Rightarrow> node" where
  "applyTranslation deltaX deltaY elt =
     (let x = Number_of (getAttribute elt ''x'');
          y = Number_of (getAttribute elt ''y'');
          newX = js_add x deltaX;
          newY = js_add y deltaY
      in setAttribute ''y'' (js_toString (round_js newY))
           (setAttribute ''x'' (js_toString (round_js newX)) elt))"

definition translate_child :: "jsnum \<Rightarrow> jsnum \<Rightarrow> node \<Rightarrow> node" where
  "translate_child deltaX deltaY c = (if is_element c then applyTranslation deltaX deltaY c else c)"

fun removeTranslations_elt :: "node \<Rightarrow> node" where
  \<comment> \<open>the body of the \<open>forEach\<close> over the elements with a \<open>transform\<close> attribute\<close>
  "removeTranslations_elt (Text s) = Text s"
| "removeTranslations_elt (Element t as st cs) =
     (case map_of as ''transform'' of
        None \<Rightarrow> Element t as st cs
      | Some transform \<Rightarrow>
          (case translateRegex transform of
             None \<Rightarrow> Element t as st cs
           | Some (pre, x, y, rest) \<Rightarrow>
               if hasXY (Element t as st cs) \<and> allChildrenHaveXY (children (Element t as st cs))
               then (let deltaX = js_Number x; deltaY = js_Number y;
                         moved = applyTranslation deltaX deltaY
                                   (Element t as st (map (translate_child deltaX deltaY) cs));
                         newTransform = pre @ rest
                     in if newTransform = [] then removeAttribute ''transform'' moved
                        else setAttribute ''transform'' newTransform moved)
               else Element t as st cs))"

fun count_nodes :: "node \<Rightarrow> nat" where
  "count_nodes (Text s) = 1"
| "count_nodes (Element t as st cs) = Suc (sum_list (map count_nodes cs))"

section \<open>The Dimension Model in the words of the specification\<close>

text \<open>
  The specification states validity by the pattern \<open>^(\d+(\.\d+)?)([a-zA-Z%]*)$\<close> and a
  list of units.  The following definitions follow those words, to be compared with
  \<open>dimValid\<close> of the code.
\<close>

definition is_unit_char :: "char \<Rightarrow> bool" where
  "is_unit_char c = (c \<in> set ''abcdefghijklmnopqrstuvwxyzABCDEFGHIJKLMNOPQRSTUVWXYZ%'')"

definition spec_dimRegex :: "string \<Rightarrow> (string \<times> string) option" where
  \<comment> \<open>digits, then optionally a point and digits, then the unit up to the end\<close>
  "spec_dimRegex s =
     (let ip = takeWhile is_digit s; r1 = dropWhile is_digit s;
          frac = (r1 \<noteq> [] \<and> hd r1 = CHR ''.'' \<and> takeWhile is_digit (tl r1) \<noteq> []);
          num = (if frac then ip @ ''.'' @ takeWhile is_digit (tl r1) else ip);
          u = (if frac then dropWhile is_digit (tl r1) else r1)
      in if ip \<noteq> [] \<and> list_all is_unit_char u then Some (num, u) else None)"

definition spec_units :: "string list" where
  "spec_units =
     ['''', ''px'', ''cm'', ''mm'', ''in'', ''pt'', ''pc'', ''Q'',
      ''em'', ''ex'', ''ch'', ''rem'', ''lh'', ''rlh'', ''vw'', ''vh'', ''vmin'', ''vmax'', ''vb'',
      ''vi'', ''svw'', ''svh'', ''lvw'', ''lvh'', ''dvw'', ''dvh'']"

definition spec_valid :: "string \<Rightarrow> bool" where
  "spec_valid s = (case spec_dimRegex s of None \<Rightarrow> False | Some (num, u) \<Rightarrow> u \<in> set spec_units)"

lemma count_nodes_setAttribute [simp]: "count_nodes (setAttribute k v n) = count_nodes n"
  by (cases n) simp_all

lemma count_nodes_removeAttribute [simp]: "count_nodes (removeAttribute k n) = count_nodes n"
  by (cases n) simp_all

lemma count_nodes_translate_child [simp]: "count_nodes (translate_child dx dy c) = count_nodes c"
  by (simp add: translate_child_def applyTranslation_def Let_def)

lemma count_nodes_removeTranslations_elt [simp]:
  "count_nodes (removeTranslations_elt n) = count_nodes n"
  by (cases n) (simp_all add: applyTranslation_def Let_def comp_def split: option.split)

lemma count_nodes_child: "c \<in> set cs \<Longrightarrow> count_nodes c < count_nodes (Element t as st cs)"
  by (induction cs) auto

function removeTranslations :: "node \<Rightarrow> node" where
  \<comment> \<open>the \<open>forEach\<close> over \<open>querySelectorAll('[transform]')\<close>, in document order: an element
      is folded before its children, which are then visited as the fold left them\<close>
  "removeTranslations (Text s) = Text s"
| "removeTranslations (Element t as st cs) =
     (case removeTranslations_elt (Element t as st cs) of
        Element t' as' st' cs' \<Rightarrow> Element t' as' st' (map removeTranslations cs')
      | Text s \<Rightarrow> Text s)"
  by pat_completeness auto
termination
proof (relation "measure count_nodes")
  fix t as st cs t' as' st' cs' c
  assume e: "removeTranslations_elt (Element t as st cs) = Element t' as' st' cs'"
    and c: "c \<in> set cs'"
  have "count_nodes c < count_nodes (Element t' as' st' cs')"
    using c by (rule count_nodes_child)
  also have "\<dots> = count_nodes (Element t as st cs)"
    using count_nodes_removeTranslations_elt [of "Element t as st cs"] e by simp
  finally show "(c, Element t as st cs) \<in> measure count_nodes"
    by simp
qed simp

section \<open>\<open>utils.js\<close>\<close>

definition backslash :: char where
  "backslash = CHR 0x5C"

definition double_quote :: char where
  "double_quote = CHR 0x22"

definition line_feed :: char where
  "line_feed = CHR 0x0A"

definition is_line_terminator :: "char \<Rightarrow> bool" where
  \<comment> \<open>what \<open>.\<close> does not match, among the code units below 256\<close>
  "is_line_terminator c = (c = CHR 0x0A \<or> c = CHR 0x0D)"

definition promote_font_size :: "node \<Rightarrow> declarations option \<Rightarrow> declarations option" where
  \<comment> \<open>\<open>fontSize && textElt.style.setProperty('font-size', fontSize)\<close> for one child\<close>
  "promote_font_size child st =
     (let fontSize = getPropertyValue (style_of child) ''font-size''
      in if fontSize \<noteq> [] then setProperty ''font-size'' fontSize st else st)"

definition flatten_child :: "env \<Rightarrow> node \<Rightarrow> node" where
  \<comment> \<open>\<open>child.replaceWith(child.innerHTML)\<close>: a text node takes the place of a child element\<close>
  "flatten_child env c = (if is_element c then Text (innerHTML env c) else c)"

fun flattenTextChildren :: "env \<Rightarrow> node \<Rightarrow> node" where
  "flattenTextChildren env (Text s) = Text s"
| "flattenTextChildren env (Element t as st cs) =
     Element t as (foldl (\<lambda>s c. promote_font_size c s) st (filter is_element cs))
       (map (flatten_child env) cs)"

definition dollar_here :: "string \<Rightarrow> (string \<times> string) option" where
  \<comment> \<open>\<open>\$(.+?)\$\<close> matched at the head of \<open>s\<close>: the group and what follows the match.  The
      lazy group takes one character, whatever it is, and then runs to the next dollar sign;
      it cannot cross a line terminator\<close>
  "dollar_here s =
     (case s of
        c0 # c1 # r \<Rightarrow>
          if c0 = CHR ''$'' \<and> \<not> is_line_terminator c1
          then (let g = takeWhile (\<lambda>c. c \<noteq> CHR ''$'' \<and> \<not> is_line_terminator c) r;
                    r' = dropWhile (\<lambda>c. c \<noteq> CHR ''$'' \<and> \<not> is_line_terminator c) r
                in if r' \<noteq> [] \<and> hd r' = CHR ''$'' then Some (c1 # g, tl r') else None)
          else None
      | _ \<Rightarrow> None)"

lemma dollar_here_shorter: "dollar_here s = Some (g, rest) \<Longrightarrow> length rest < length s"
proof -
  have "length (tl (dropWhile P r)) \<le> length r" for P and r :: string
    using length_dropWhile_le [of P r] by simp
  then show "dollar_here s = Some (g, rest) \<Longrightarrow> length rest < length s"
    by (auto simp add: dollar_here_def Let_def less_Suc_eq_le le_SucI
        split: list.splits if_splits)
qed

function convertMathJaxDelimiters :: "string \<Rightarrow> string" where
  \<comment> \<open>\<open>text.replace(/\$(.+?)\$/g, '\\($1\\)')\<close>\<close>
  "convertMathJaxDelimiters [] = []"
| "convertMathJaxDelimiters (c # cs) =
     (case dollar_here (c # cs) of
        Some (g, rest) \<Rightarrow> [backslash, CHR ''(''] @ g @ [backslash, CHR '')''] @ convertMathJaxDelimiters rest
      | None \<Rightarrow> c # convertMathJaxDelimiters cs)"
  by pat_completeness auto
termination
  by (relation "measure length") (auto dest: dollar_here_shorter)

definition equationRegex :: "string \<Rightarrow> bool" where
  \<comment> \<open>whether \<open>/^\$[^\$]+\$/\<close> matches: a dollar sign, one or more other characters, a dollar
      sign; the pattern has no anchor at the end\<close>
  "equationRegex s =
     (case s of
        [] \<Rightarrow> False
      | c # r \<Rightarrow> c = CHR ''$'' \<and> takeWhile (\<lambda>c. c \<noteq> CHR ''$'') r \<noteq> []
                 \<and> dropWhile (\<lambda>c. c \<noteq> CHR ''$'') r \<noteq> [])"

definition md2html :: "env \<Rightarrow> string \<Rightarrow> string" where
  "md2html env markdown =
     (if equationRegex markdown
      then ''<p><span class='' @ [double_quote] @ ''math inline'' @ [double_quote] @ ''>''
           @ convertMathJaxDelimiters markdown @ ''</span></p>''
      else replace_first [line_feed] [] (pandoc env ''markdown'' ''html'' ''--mathjax'' markdown))"

section \<open>Stand-ins for the collaborators\<close>

text \<open>
  The examples below need some serializer, parser, converter and minifier to run on.  These
  are the simplest ones: the serializer prints the text of a subtree, the parser and
  \<open>pandoc\<close> wrap their input in one paragraph, and the minifier changes nothing.
\<close>

fun textContent :: "node \<Rightarrow> string" where
  "textContent (Text s) = s"
| "textContent (Element t as st cs) = concat (map textContent cs)"

definition plain_env :: env where
  "plain_env =
     \<lparr>innerHTML = (\<lambda>n. concat (map textContent (childNodes n))),
      parseHTML = (\<lambda>s. [Element ''p'' [] None [Text s]]),
      pandoc = (\<lambda>from to options input. input),
      svgo = (\<lambda>n. n)\<rparr>"

section \<open>The fast path in the words of the specification\<close>

definition exactly_one_equation :: "string \<Rightarrow> bool" where
  \<comment> \<open>the content is one equation \<open>$\<dots>$\<close> with no dollar sign inside\<close>
  "exactly_one_equation s =
     (3 \<le> length s \<and> hd s = CHR ''$'' \<and> last s = CHR ''$'' \<and> CHR ''$'' \<notin> set (butlast (tl s)))"

section \<open>\<open>text2foreignObject.js\<close>\<close>

fun fontSizeRegex :: "string \<Rightarrow> string option" where
  \<comment> \<open>the group \<open>size\<close> of the first match of \<open>/(?<size>[\d\.]+)px/\<close>, tried at each position
      in turn: a run of digits and points up to its end, then \<open>px\<close>\<close>
  "fontSizeRegex [] = None"
| "fontSizeRegex (c # cs) =
     (if is_digit_or_dot c \<and> take 2 (dropWhile is_digit_or_dot (c # cs)) = ''px''
      then Some (takeWhile is_digit_or_dot (c # cs))
      else fontSizeRegex cs)"

definition set_if_present :: "string \<Rightarrow> string \<Rightarrow> declarations option \<Rightarrow> declarations option" where
  \<comment> \<open>\<open>value && foreignObject.style.setProperty(p, value)\<close>\<close>
  "set_if_present p v st = (if v \<noteq> [] then setProperty p v st else st)"

definition foreignObject_attrs :: "node \<Rightarrow> attrs" where
  "foreignObject_attrs textElt =
     (let textWidth = getPropertyValue (style_of textElt) ''inline-size''
      in [(''x'', String_of (getAttribute textElt ''x'')),
          (''y'', String_of (getAttribute textElt ''y'')),
          (''width'', if textWidth \<noteq> [] then textWidth else ''1000''),
          (''height'', ''1''),
          (''overflow'', ''visible'')]
         @ (case getAttribute textElt ''transform'' of
              None \<Rightarrow> []
            | Some transform \<Rightarrow> if transform \<noteq> [] then [(''transform'', transform)] else []))"

definition effective_font_size :: "node \<Rightarrow> string" where
  \<comment> \<open>\<open>fontSize = fontSize ? fontSize : '16px'\<close>\<close>
  "effective_font_size textElt =
     (let fontSize = getPropertyValue (style_of textElt) ''font-size''
      in if fontSize \<noteq> [] then fontSize else ''16px'')"

definition foreignObject_style :: "node \<Rightarrow> declarations option" where
  "foreignObject_style textElt =
     set_if_present ''opacity'' (getPropertyValue (style_of textElt) ''opacity'')
       (set_if_present ''color'' (getPropertyValue (style_of textElt) ''fill'')
          (set_if_present ''font-family'' (getPropertyValue (style_of textElt) ''font-family'')
             (setProperty ''font-size'' (effective_font_size textElt) None)))"

fun prepend_to_first_element :: "node \<Rightarrow> string \<Rightarrow> node list \<Rightarrow> node list option" where
  \<comment> \<open>\<open>children[0].prepend(span)\<close> and \<open>children[0].style.setProperty('margin-top', m)\<close>;
      \<open>None\<close> when there is no child element and \<open>children[0]\<close> is \<open>undefined\<close>\<close>
  "prepend_to_first_element sp m [] = None"
| "prepend_to_first_element sp m (Text s # ns) =
     map_option ((#) (Text s)) (prepend_to_first_element sp m ns)"
| "prepend_to_first_element sp m (Element t as st cs # ns) =
     Some (Element t as (setProperty ''margin-top'' m st) (sp # cs) # ns)"

definition anchor_child :: "string \<Rightarrow> node \<Rightarrow> node" where
  "anchor_child translateX child =
     (if is_element child
      then set_style (setProperty ''transform'' (''translateX('' @ translateX @ ''%)'') (style_of child)) child
      else child)"

definition anchor :: "string \<Rightarrow> declarations option \<Rightarrow> node list \<Rightarrow> declarations option \<times> node list" where
  \<comment> \<open>the loop over \<open>foreignObject.children\<close> for the \<open>text-anchor\<close> of the source: the style
      of the block and its child nodes afterwards\<close>
  "anchor textAnchor st ns =
     (if textAnchor = ''middle'' then
        (if filter is_element ns = [] then st else setProperty ''text-align'' ''center'' st,
         map (anchor_child ''-50'') ns)
      else if textAnchor = ''end'' then
        (if filter is_element ns = [] then st else setProperty ''text-align'' ''end'' st,
         map (anchor_child ''-100'') ns)
      else (st, ns))"

definition convert_text :: "env \<Rightarrow> node \<Rightarrow> js_error + node option" where
  \<comment> \<open>the body of the \<open>forEach\<close> over the \<open>text\<close> elements: the \<open>foreignObject\<close> that replaces
      the element, \<open>None\<close> when the element is removed, or the exception thrown\<close>
  "convert_text env textElt0 =
     (let textElt = flattenTextChildren env textElt0;
          markdown = innerHTML env textElt
      in if markdown = [] then Inr None
         else
           (let html = md2html env markdown;
                fontSize = effective_font_size textElt
            in case fontSizeRegex fontSize of
                 None \<Rightarrow> Inl TypeError
               | Some sz \<Rightarrow>
                   (let xTimesFontSize = js_toString (Math_ceil (js_mul (Num 20) (js_Number sz))) @ ''px'';
                        sp = Element ''span'' []
                                 (Some [(''height'', xTimesFontSize, []), (''display'', ''inline-block'', [])]) []
                    in case prepend_to_first_element sp (''-'' @ xTimesFontSize) (parseHTML env html) of
                         None \<Rightarrow> Inl TypeError
                       | Some ns \<Rightarrow>
                           (case anchor (getPropertyValue (style_of textElt) ''text-anchor'')
                                   (foreignObject_style textElt) ns of
                              (st, ns') \<Rightarrow>
                                Inr (Some (Element ''foreignObject'' (foreignObject_attrs textElt) st ns'))))))"

fun querySelectorAll :: "(node \<Rightarrow> bool) \<Rightarrow> node \<Rightarrow> node list" where
  \<comment> \<open>the matching elements of a subtree in document order\<close>
  "querySelectorAll p (Text s) = []"
| "querySelectorAll p (Element t as st cs) =
     (if p (Element t as st cs) then [Element t as st cs] else [])
     @ concat (map (querySelectorAll p) cs)"

fun replace_text :: "env \<Rightarrow> node \<Rightarrow> node list" where
  \<comment> \<open>what stands in the tree for a node after the pass\<close>
  "replace_text env (Text s) = [Text s]"
| "replace_text env (Element t as st cs) =
     (if t = ''text''
      then (case convert_text env (Element t as st cs) of
              Inr (Some foreignObject) \<Rightarrow> [foreignObject]
            | _ \<Rightarrow> [])
      else [Element t as st (concat (map (replace_text env) cs))])"

definition text2foreignObject :: "env \<Rightarrow> node \<Rightarrow> js_error + node" where
  \<comment> \<open>The pass over the descendants of the root.  Every \<open>text\<close> element of the static list
      is converted as the tree had it at the start (an earlier conversion touches only the
      style and the child list of its own element), one nested in another included, whose
      result goes nowhere; the first exception ends the pass\<close>
  "text2foreignObject env svgDOM =
     (if list_ex (\<lambda>e. isl (convert_text env e))
           (concat (map (querySelectorAll (has_tag ''text'')) (childNodes svgDOM)))
      then Inl TypeError
      else Inr (case svgDOM of
                  Element t as st cs \<Rightarrow> Element t as st (concat (map (replace_text env) cs))
                | Text s \<Rightarrow> Text s))"

section \<open>\<open>svg2to11.js\<close>\<close>

definition context_stroke_to_black :: "string \<Rightarrow> declarations option \<Rightarrow> declarations option" where
  "context_stroke_to_black p st =
     (if getPropertyValue st p = ''context-stroke'' then setProperty p ''#000'' st else st)"

fun svg2to11_in :: "bool \<Rightarrow> node \<Rightarrow> node" where
  \<comment> \<open>the flag says whether the node lies inside a \<open>marker\<close> element; the selector
      \<open>marker [style]\<close> takes the elements that do and have a \<open>style\<close> attribute\<close>
  "svg2to11_in inside (Text s) = Text s"
| "svg2to11_in inside (Element t as st cs) =
     Element t as
       (if inside \<and> st \<noteq> None
        then context_stroke_to_black ''stroke'' (context_stroke_to_black ''fill'' st) else st)
       (map (svg2to11_in (inside \<or> t = ''marker'')) cs)"

definition svg2to11 :: "node \<Rightarrow> node" where
  "svg2to11 svgDOM = svg2to11_in False svgDOM"

section \<open>Evaluating the number model\<close>

declare binlen.simps [simp del] declen.simps [simp del] digits_of.simps [simp del]

lemma floor_rat_numeral_div [simp]:
  "\<lfloor>numeral a / numeral b :: rat\<rfloor> = numeral a div numeral b"
  by (metis floor_divide_of_int_eq of_int_numeral)

lemma floor_rat_one_div [simp]:
  "\<lfloor>1 / numeral b :: rat\<rfloor> = 1 div numeral b"
  by (metis floor_divide_of_int_eq of_int_1 of_int_numeral)

lemma ceiling_rat_numeral_div [simp]:
  "\<lceil>numeral a / numeral b :: rat\<rceil> = - (- numeral a div numeral b)"
  by (metis ceiling_def floor_divide_of_int_eq minus_divide_left of_int_minus of_int_numeral)

lemma ceiling_rat_one_div [simp]:
  "\<lceil>1 / numeral b :: rat\<rceil> = - (- 1 div numeral b)"
  by (metis ceiling_def floor_divide_of_int_eq minus_divide_left of_int_minus of_int_numeral of_int_1)

lemmas num_eval = pow2_def pow10_def ilog2_def ilog10_def round_half_even_def fl_pos_def fl_def
  toPrecision10_def Let_def binlen.simps declen.simps

lemmas str_eval = js_Number_def trim_def is_ws_def non_decimal_literal_def unsigned_decimal_def
  exponent_part_def decimal_value_def digit_val_def is_digit_def hex_val_def
  positive_toString_def format_number_def strip_zeros_def digits_of.simps digit_char_def
  exponent_string_def

lemma abs2PX_eval:
  "abs2PX =
     [('''', Num 1),
      (''px'', Num 1),
      (''cm'', Num (2659938529915699 / 70368744177664)),
      (''mm'', Num (8511803295730237 / 2251799813685248)),
      (''in'', Num 96),
      (''pt'', Num (6004799503160661 / 4503599627370496)),
      (''pc'', Num 16),
      (''Q'', Num (8511803295730237 / 9007199254740992))]"
  unfolding abs2PX_def by (simp add: num_eval cong: let_weak_cong)

lemmas dim_eval = dimValid_def dimRegex_def String_of_def is_digit_or_dot_def is_digit_def
  in_abs2PX_def abs2PX_eval relUnits_def Object_prototype_keys_def pandocDimValid_def

lemma map_of_update_attr:
  "map_of (update_attr k v as) k' = (if k' = k then Some v else map_of as k')"
  by (induction as) auto

section \<open>The Resizer on an A4 page\<close>

lemma px_210mm:
  "round_js (times_abs2PX (js_Number ''210'') ''mm'') = Num (3491169320514355 / 4398046511104)"
  by (simp add: times_abs2PX_def abs2PX_eval num_eval str_eval cong: let_weak_cong)

lemma px_297mm:
  "round_js (times_abs2PX (js_Number ''297'') ''mm'') = Num (4937510896156017 / 4398046511104)"
  by (simp add: times_abs2PX_def abs2PX_eval num_eval str_eval cong: let_weak_cong)

lemma em_210mm:
  "js_toString (round_js (js_div (js_mul (Num 1) (Num (3491169320514355 / 4398046511104))) (Num 16)))
     = ''49.6125''"
  by (simp add: num_eval str_eval cong: let_weak_cong)

lemma em_297mm:
  "js_toString (round_js (js_div (js_mul (Num 1) (Num (4937510896156017 / 4398046511104))) (Num 16)))
     = ''70.16625''"
  by (simp add: num_eval str_eval cong: let_weak_cong)

lemma valid_210mm: "dimValid (Some ''210mm'')"
  by (simp add: dim_eval)

lemma valid_297mm: "dimValid (Some ''297mm'')"
  by (simp add: dim_eval)

lemma regex_210mm: "dimRegex ''210mm'' = Some (''210'', ''mm'')"
  by (simp add: dim_eval)

lemma regex_297mm: "dimRegex ''297mm'' = Some (''297'', ''mm'')"
  by (simp add: dim_eval)

lemma new_dims_a4:
  assumes "(case scaleFactor d of None \<Rightarrow> Num 1 | Some v \<Rightarrow> ToNumber v) = Num 1"
    and "width d = None" and "height d = None"
  shows "new_dims (Some ''210mm'') (Some ''297mm'') d = Inr (Some (''49.6125em'', ''70.16625em''))"
  unfolding new_dims_def
  by (simp add: assms valid_210mm valid_297mm String_of_def regex_210mm regex_297mm relUnits_def
      px_210mm px_297mm em_210mm em_297mm
      del: js_mul.simps js_div.simps round_js.simps js_toString.simps)

lemma resize_a4:
  assumes "map_of as ''width'' = Some ''210mm''" and "map_of as ''height'' = Some ''297mm''"
    and "sf = None \<or> sf = Some (JSNumber (Num 1))"
  shows "resize (Element ''svg'' as st cs) \<lparr>scaleFactor = sf, width = None, height = None\<rparr>
     = Inr (Element ''svg''
              (update_attr ''height'' ''70.16625em'' (update_attr ''width'' ''49.6125em'' as)) st cs)"
proof -
  have "new_dims (Some ''210mm'') (Some ''297mm'') \<lparr>scaleFactor = sf, width = None, height = None\<rparr>
      = Inr (Some (''49.6125em'', ''70.16625em''))"
    using assms(3) by (intro new_dims_a4) auto
  then show ?thesis
    using assms(1,2) by (simp add: resize_def applyWidthHeight_def)
qed

text \<open>
  Claim C2, as the code has it.  For a tree whose root \<open>svg\<close> element has \<open>width="210mm"\<close> and
  \<open>height="297mm"\<close>, \<open>resize\<close> with no target width or height and a scale factor of 1 (given
  or defaulted) sets the root's \<open>width\<close> to exactly \<open>49.6125em\<close> and its \<open>height\<close> to exactly
  \<open>70.16625em\<close> (297 mm are 1122.66 px, a sixteenth of which is 70.16625), and changes
  nothing else in the tree.
\<close>

theorem resize_a4_default:
  assumes "map_of as ''width'' = Some ''210mm''" and "map_of as ''height'' = Some ''297mm''"
    and "sf = None \<or> sf = Some (JSNumber (Num 1))"
  shows "\<exists>as'. resize (Element ''svg'' as st cs) \<lparr>scaleFactor = sf, width = None, height = None\<rparr>
           = Inr (Element ''svg'' as' st cs)
         \<and> map_of as' ''width'' = Some ''49.6125em''
         \<and> map_of as' ''height'' = Some ''70.16625em''
         \<and> map_of as' |` (- {''width'', ''height''}) = map_of as |` (- {''width'', ''height''})"
  using resize_a4 [OF assms]
  by (auto simp add: map_of_update_attr restrict_map_def fun_eq_iff)

theorem resize_a4_default_witness:
  "\<exists>as'. resize (Element ''svg'' [(''width'', ''210mm''), (''height'', ''297mm'')] None [])
            \<lparr>scaleFactor = None, width = None, height = None\<rparr>
           = Inr (Element ''svg'' as' None [])
         \<and> map_of as' ''width'' = Some ''49.6125em''
         \<and> map_of as' ''height'' = Some ''70.16625em''"
  using resize_a4_default [of "[(''width'', ''210mm''), (''height'', ''297mm'')]" None None "[]"]
  by auto

text \<open>
  Claim C2 as the specification words it fails: the height of the resized A4 page is not
  \<open>70.175em\<close>.
\<close>

theorem resize_a4_height_counterexample:
  "\<not> (\<exists>d. resize (Element ''svg'' [(''width'', ''210mm''), (''height'', ''297mm'')] None [])
              \<lparr>scaleFactor = None, width = None, height = None\<rparr> = Inr d
          \<and> getAttribute d ''width'' = Some ''49.6125em''
          \<and> getAttribute d ''height'' = Some ''70.175em'')"
  using resize_a4 [of "[(''width'', ''210mm''), (''height'', ''297mm'')]" None None "[]"]
  by auto

section \<open>Validity of dimension strings\<close>

lemma dimValid_Some:
  "dimValid (Some s) \<longleftrightarrow>
     takeWhile is_digit_or_dot s \<noteq> [] \<and>
     (in_abs2PX (dropWhile is_digit_or_dot s) \<or> dropWhile is_digit_or_dot s \<in> set relUnits)"
proof -
  have *: "list_all (\<lambda>c. \<not> is_digit_or_dot c) u" if "in_abs2PX u \<or> u \<in> set relUnits" for u
    using that
    by (auto simp add: in_abs2PX_def abs2PX_eval relUnits_def Object_prototype_keys_def
        is_digit_or_dot_def is_digit_def)
  show ?thesis
    using * [of "dropWhile is_digit_or_dot s"]
    by (auto simp add: dimValid_def dimRegex_def String_of_def)
qed

text \<open>
  Claim C4, as the code has it.  Split a dimension string into its numeric part, the longest
  prefix of digits and points, and the suffix after it.  For every string whose numeric part
  is empty or has at least one digit and at most one point (so \<open>.5\<close> and \<open>5.\<close> count), and
  whose suffix is not the name of a property that every object inherits, \<open>dimValid\<close> accepts
  the string if and only if the numeric part is not empty and the suffix is one of the
  absolute units (the empty one, px, cm, mm, in, pt, pc, Q) or one of the relative units.
\<close>

theorem dimValid_accepts_iff:
  assumes "dropWhile is_digit_or_dot s \<notin> set Object_prototype_keys"
    and "takeWhile is_digit_or_dot s = [] \<or>
         (list_ex is_digit (takeWhile is_digit_or_dot s) \<and>
          length (filter (\<lambda>c. c = CHR ''.'') (takeWhile is_digit_or_dot s)) \<le> 1)"
  shows "dimValid (Some s) \<longleftrightarrow>
     takeWhile is_digit_or_dot s \<noteq> [] \<and>
     dropWhile is_digit_or_dot s \<in> set
       ['''', ''px'', ''cm'', ''mm'', ''in'', ''pt'', ''pc'', ''Q'',
        ''em'', ''ex'', ''ch'', ''rem'', ''lh'', ''rlh'', ''vw'', ''vh'', ''vmin'', ''vmax'', ''vb'',
        ''vi'', ''svw'', ''svh'', ''lvw'', ''lvh'', ''dvw'', ''dvh'']"
  using assms(1) unfolding dimValid_Some
  by (auto simp add: in_abs2PX_def abs2PX_eval relUnits_def)

theorem dimValid_accepts_iff_witness:
  "dimValid (Some ''1.5mm'') \<and> dimValid (Some ''.5px'') \<and> \<not> dimValid (Some ''50%'')
     \<and> \<not> dimValid (Some ''px'')"
  using dimValid_accepts_iff [of "''1.5mm''"] dimValid_accepts_iff [of "''.5px''"]
    dimValid_accepts_iff [of "''50%''"] dimValid_accepts_iff [of "''px''"]
  by (simp add: is_digit_or_dot_def is_digit_def Object_prototype_keys_def)

text \<open>
  Claim C4 as the specification words it fails: the code accepts \<open>.5px\<close>, which the pattern
  \<open>^(\d+(\.\d+)?)([a-zA-Z%]*)$\<close> does not match.
\<close>

theorem dimValid_leading_point_counterexample:
  "dimValid (Some ''.5px'') \<and> \<not> spec_valid ''.5px''"
  by (simp add: dim_eval spec_valid_def spec_dimRegex_def)

section \<open>The Resizer with both targets\<close>

lemma replace_first_other_head:
  "c \<noteq> p \<Longrightarrow> replace_first (p # ps) rep (c # cs) = c # replace_first (p # ps) rep cs"
  by simp

lemma replace_first_skip:
  assumes "\<forall>c \<in> set v. c \<noteq> CHR ''i''"
  shows "replace_first ''inch'' ''in'' (v @ u) = v @ replace_first ''inch'' ''in'' u"
  using assms by (induction v) (simp_all only: replace_first_other_head append.simps list.set, auto)

lemma dimRegex_split:
  assumes "dimRegex w = Some (v, u)"
  shows "w = v @ u" and "\<forall>c \<in> set v. is_digit_or_dot c"
  using assms by (auto simp add: dimRegex_def split: if_splits dest: set_takeWhileD)

lemma not_digit_or_dot_i: "\<not> is_digit_or_dot (CHR ''i'')"
  by (simp add: is_digit_or_dot_def is_digit_def)

lemma replace_inch_unit:
  "u \<in> set [''px'', ''cm'', ''mm'', ''in'', ''inch'', ''%''] \<Longrightarrow>
   replace_first ''inch'' ''in'' u = (if u = ''inch'' then ''in'' else u)"
  by auto

lemma replace_inch:
  assumes "dimRegex w = Some (v, u)" and "pandocDimValid w"
  shows "replace_first ''inch'' ''in'' w = v @ (if u = ''inch'' then ''in'' else u)"
proof -
  have u: "u \<in> set [''px'', ''cm'', ''mm'', ''in'', ''inch'', ''%'']"
    using assms by (simp add: pandocDimValid_def)
  have "\<forall>c \<in> set v. c \<noteq> CHR ''i''"
    using dimRegex_split(2) [OF assms(1)] not_digit_or_dot_i by blast
  then have skip: "replace_first ''inch'' ''in'' (v @ u) = v @ replace_first ''inch'' ''in'' u"
    by (rule replace_first_skip)
  have w: "w = v @ u"
    by (rule dimRegex_split(1) [OF assms(1)])
  show ?thesis
    by (simp only: w skip replace_inch_unit [OF u])
qed

lemma new_dims_both:
  assumes "dimValid ws" and "dimValid hs"
    and "dimRegex (String_of ws) = Some (wv, wu)" and "dimRegex (String_of hs) = Some (hv, hu)"
    and "wu \<notin> set relUnits" and "hu \<notin> set relUnits"
  shows "new_dims ws hs \<lparr>scaleFactor = sf, width = Some w, height = Some h\<rparr> =
     Inr (if pandocDimValid w \<and> pandocDimValid h
          then Some (replace_first ''inch'' ''in'' w, replace_first ''inch'' ''in'' h) else None)"
  using assms by (simp add: new_dims_def Let_def)

lemma resize_both:
  assumes "map_of as ''width'' = Some ws" and "map_of as ''height'' = Some hs"
    and "dimValid (Some ws)" and "dimValid (Some hs)"
    and "dimRegex ws = Some (wv, wu)" and "dimRegex hs = Some (hv, hu)"
    and "wu \<notin> set relUnits" and "hu \<notin> set relUnits"
  shows "resize (Element ''svg'' as st cs) \<lparr>scaleFactor = sf, width = Some w, height = Some h\<rparr> =
     Inr (if pandocDimValid w \<and> pandocDimValid h
          then Element ''svg''
                 (update_attr ''height'' (replace_first ''inch'' ''in'' h)
                    (update_attr ''width'' (replace_first ''inch'' ''in'' w) as)) st cs
          else Element ''svg'' as st cs)"
  using new_dims_both [of "Some ws" "Some hs" wv wu hv hu sf w h] assms
  by (simp add: resize_def applyWidthHeight_def String_of_def)

text \<open>
  Claim C6, as the code has it.  Let the root's own \<open>width\<close> and \<open>height\<close> be valid and both
  in absolute units, and let \<open>resize\<close> be called with a target width and a target height
  (with any scale factor).  If either target fails validation against the units px, cm, mm,
  in, inch and %, the tree is left as it is; if both validate, the root's \<open>width\<close> and
  \<open>height\<close> become the two targets, a unit \<open>inch\<close> written \<open>in\<close>, with no aspect-ratio
  adjustment, and nothing else changes.
\<close>

theorem resize_both_targets:
  assumes "map_of as ''width'' = Some ws" and "map_of as ''height'' = Some hs"
    and "dimValid (Some ws)" and "dimValid (Some hs)"
    and "dimRegex ws = Some (wv, wu)" and "dimRegex hs = Some (hv, hu)"
    and "wu \<notin> set relUnits" and "hu \<notin> set relUnits"
  shows "resize (Element ''svg'' as st cs) \<lparr>scaleFactor = sf, width = Some w, height = Some h\<rparr> =
     Inr (if pandocDimValid w \<and> pandocDimValid h
          then Element ''svg''
                 (update_attr ''height'' (replace_first ''inch'' ''in'' h)
                    (update_attr ''width'' (replace_first ''inch'' ''in'' w) as)) st cs
          else Element ''svg'' as st cs)"
  using assms by (rule resize_both)

theorem resize_both_targets_witness:
  "resize (Element ''svg'' [(''width'', ''210mm''), (''height'', ''297mm'')] None [])
     \<lparr>scaleFactor = None, width = Some ''1inch'', height = Some ''2inch''\<rparr>
   = Inr (Element ''svg'' [(''width'', ''1in''), (''height'', ''2in'')] None [])
   \<and> resize (Element ''svg'' [(''width'', ''210mm''), (''height'', ''297mm'')] None [])
     \<lparr>scaleFactor = None, width = Some ''1inch'', height = Some ''50ducks''\<rparr>
   = Inr (Element ''svg'' [(''width'', ''210mm''), (''height'', ''297mm'')] None [])"
  using
    resize_both_targets [of "[(''width'', ''210mm''), (''height'', ''297mm'')]" "''210mm''" "''297mm''"
      "''210''" "''mm''" "''297''" "''mm''" None "[]" None "''1inch''" "''2inch''"]
    resize_both_targets [of "[(''width'', ''210mm''), (''height'', ''297mm'')]" "''210mm''" "''297mm''"
      "''210''" "''mm''" "''297''" "''mm''" None "[]" None "''1inch''" "''50ducks''"]
  by (simp add: valid_210mm valid_297mm regex_210mm regex_297mm relUnits_def pandocDimValid_def
        dimRegex_def is_digit_or_dot_def is_digit_def)

text \<open>
  Claim C6 as the specification words it fails when the root is sized in relative units:
  both targets validate, and neither is written.
\<close>

theorem resize_relative_ignores_targets_counterexample:
  "pandocDimValid ''100px'' \<and> pandocDimValid ''50px'' \<and>
   resize (Element ''svg'' [(''width'', ''2em''), (''height'', ''1em'')] None [])
     \<lparr>scaleFactor = None, width = Some ''100px'', height = Some ''50px''\<rparr>
   = Inr (Element ''svg'' [(''width'', ''2em''), (''height'', ''1em'')] None [])"
  by (simp add: resize_def new_dims_def dim_eval applyWidthHeight_def num_eval str_eval
        cong: let_weak_cong)

section \<open>The Resizer on a malformed width\<close>

text \<open>
  Claim C7 at an input where the code departs from it.  The width \<open>1.2.3mm\<close> is malformed,
  yet \<open>dimValid\<close> lets it through (its pattern takes any run of digits and points), and
  \<open>resize\<close> overwrites both attributes, the width with \<open>NaNem\<close>.
\<close>

theorem resize_malformed_width_writes_NaN:
  "\<not> spec_valid ''1.2.3mm'' \<and>
   resize (Element ''svg'' [(''width'', ''1.2.3mm''), (''height'', ''50mm'')] None [])
     \<lparr>scaleFactor = None, width = None, height = None\<rparr>
   = Inr (Element ''svg'' [(''width'', ''NaNem''), (''height'', ''11.8125em'')] None [])"
  by (simp add: resize_def new_dims_def dim_eval applyWidthHeight_def num_eval str_eval
        times_abs2PX_def spec_valid_def spec_dimRegex_def spec_units_def is_unit_char_def
        cong: let_weak_cong)

section \<open>Translation folding on the example of the tests\<close>

lemma translateRegex_example:
  "translateRegex ''translate(-1 -2) scale(1 0.5)'' = Some ([], ''-1'', ''-2'', ''scale(1 0.5)'')"
  by (simp add: translate_here_def is_ws_def is_num_char_def is_digit_def Let_def)

lemma fold_x: "js_toString (round_js (js_add (js_Number ''1'') (js_Number ''-1''))) = ''0''"
  by (simp add: num_eval str_eval cong: let_weak_cong)

lemma fold_y: "js_toString (round_js (js_add (js_Number ''2'') (js_Number ''-2''))) = ''0''"
  by (simp add: num_eval str_eval cong: let_weak_cong)

lemma applyTranslation_example:
  "applyTranslation (js_Number ''-1'') (js_Number ''-2'')
     (Element t ((''x'', ''1'') # (''y'', ''2'') # as) st cs)
   = Element t ((''x'', ''0'') # (''y'', ''0'') # as) st cs"
  by (simp add: applyTranslation_def Number_of_def fold_x fold_y
      del: js_add.simps round_js.simps js_toString.simps)

lemma text_nodes_children: "list_all (\<lambda>c. \<not> is_element c) ts \<Longrightarrow> filter is_element ts = []"
  by (induction ts) auto

lemma text_nodes_translate_child:
  "list_all (\<lambda>c. \<not> is_element c) ts \<Longrightarrow> map (translate_child dx dy) ts = ts"
  by (induction ts) (auto simp add: translate_child_def)

lemma text_nodes_removeTranslations:
  "list_all (\<lambda>c. \<not> is_element c) ts \<Longrightarrow> map removeTranslations ts = ts"
proof (induction ts)
  case Nil
  then show ?case by simp
next
  case (Cons c ts)
  then show ?case by (cases c) auto
qed

lemma removeTranslations_elt_example:
  assumes "list_all (\<lambda>c. \<not> is_element c) (before @ after)"
  shows "removeTranslations_elt
     (Element ''text''
        [(''x'', ''1''), (''y'', ''2''), (''transform'', ''translate(-1 -2) scale(1 0.5)'')] st
        (before @ Element ''tspan'' [(''x'', ''1''), (''y'', ''2'')] st' cs # after))
   = Element ''text'' [(''x'', ''0''), (''y'', ''0''), (''transform'', ''scale(1 0.5)'')] st
        (before @ Element ''tspan'' [(''x'', ''0''), (''y'', ''0'')] st' cs # after)"
proof -
  have b: "list_all (\<lambda>c. \<not> is_element c) before" and a: "list_all (\<lambda>c. \<not> is_element c) after"
    using assms by simp_all
  have xy: "allChildrenHaveXY (children (Element ''text'' as st
      (before @ Element ''tspan'' [(''x'', ''1''), (''y'', ''2'')] st' cs # after)))" for as
    by (simp add: allChildrenHaveXY_def children_def hasXY_def
        text_nodes_children [OF b] text_nodes_children [OF a])
  have tc: "translate_child (js_Number ''-1'') (js_Number ''-2'')
      (Element ''tspan'' [(''x'', ''1''), (''y'', ''2'')] st' cs)
      = Element ''tspan'' [(''x'', ''0''), (''y'', ''0'')] st' cs"
    by (simp add: translate_child_def applyTranslation_example)
  show ?thesis
    by (simp add: translateRegex_example xy hasXY_def Let_def applyTranslation_example tc
        text_nodes_translate_child [OF b] text_nodes_translate_child [OF a]
        del: translateRegex.simps)
qed

lemma removeTranslations_elt_no_transform:
  "map_of as ''transform'' = None \<Longrightarrow>
   removeTranslations_elt (Element t as st cs) = Element t as st cs"
  by simp

lemma removeTranslations_example:
  assumes "list_all (\<lambda>c. \<not> is_element c) (before @ after)"
  shows "removeTranslations
     (Element ''text''
        [(''x'', ''1''), (''y'', ''2''), (''transform'', ''translate(-1 -2) scale(1 0.5)'')] st
        (before @ Element ''tspan'' [(''x'', ''1''), (''y'', ''2'')] st' cs # after))
   = Element ''text'' [(''x'', ''0''), (''y'', ''0''), (''transform'', ''scale(1 0.5)'')] st
        (before @ Element ''tspan'' [(''x'', ''0''), (''y'', ''0'')] st' (map removeTranslations cs)
           # after)"
proof -
  have b: "list_all (\<lambda>c. \<not> is_element c) before" and a: "list_all (\<lambda>c. \<not> is_element c) after"
    using assms by simp_all
  show ?thesis
    by (simp add: removeTranslations_elt_example [OF assms] text_nodes_removeTranslations [OF b]
        text_nodes_removeTranslations [OF a] removeTranslations_elt_no_transform
        del: removeTranslations_elt.simps)
qed

text \<open>
  Claim C8.  Take an element \<open><text x="1" y="2" transform="translate(-1 -2) scale(1 0.5)">\<close>
  whose only child element is \<open><tspan x="1" y="2">\<close>, with any text before and after the
  child, any styles and any content of the child.  Translation folding rewrites the parent's
  \<open>transform\<close> to exactly \<open>scale(1 0.5)\<close> and sets the \<open>x\<close> and \<open>y\<close> of the parent and of
  the child to the string \<open>0\<close>; styles and text are untouched, and the folding goes on
  inside the child.
\<close>

theorem removeTranslations_text_tspan:
  assumes "list_all (\<lambda>c. \<not> is_element c) (before @ after)"
  shows "removeTranslations
     (Element ''text''
        [(''x'', ''1''), (''y'', ''2''), (''transform'', ''translate(-1 -2) scale(1 0.5)'')] st
        (before @ Element ''tspan'' [(''x'', ''1''), (''y'', ''2'')] st' cs # after))
   = Element ''text'' [(''x'', ''0''), (''y'', ''0''), (''transform'', ''scale(1 0.5)'')] st
        (before @ Element ''tspan'' [(''x'', ''0''), (''y'', ''0'')] st' (map removeTranslations cs)
           # after)"
  using assms by (rule removeTranslations_example)

theorem removeTranslations_text_tspan_witness:
  "removeTranslations
     (Element ''text''
        [(''x'', ''1''), (''y'', ''2''), (''transform'', ''translate(-1 -2) scale(1 0.5)'')] None
        [Text ''Text.'', Element ''tspan'' [(''x'', ''1''), (''y'', ''2'')] None [Text ''Text in tspan.'']])
   = Element ''text'' [(''x'', ''0''), (''y'', ''0''), (''transform'', ''scale(1 0.5)'')] None
        [Text ''Text.'', Element ''tspan'' [(''x'', ''0''), (''y'', ''0'')] None [Text ''Text in tspan.'']]"
proof -
  have "list_all (\<lambda>c. \<not> is_element c) ([Text ''Text.''] @ [])"
    by simp
  from removeTranslations_text_tspan [OF this, of None None "[Text ''Text in tspan.'']"]
  show ?thesis
    by (simp del: removeTranslations.simps(2))
qed

section \<open>The fast path of \<open>md2html\<close>\<close>

lemma convert_example:
  "convertMathJaxDelimiters ''$x$ is positive'' = [backslash] @ ''(x'' @ [backslash] @ '') is positive''"
  by (simp add: dollar_here_def is_line_terminator_def)

text \<open>
  Claim C3 at an input where the code departs from it.  The content \<open>$x$ is positive\<close> is
  not exactly one equation, yet \<open>md2html\<close> answers it on the fast path: whatever \<open>pandoc\<close>
  would return, the result is the substituted text inside the math span.  The pattern that
  guards the fast path is anchored at the start of the content only.
\<close>

theorem md2html_fast_path_on_prefix:
  "\<not> exactly_one_equation ''$x$ is positive'' \<and>
   equationRegex ''$x$ is positive'' \<and>
   md2html env ''$x$ is positive''
     = ''<p><span class='' @ [double_quote] @ ''math inline'' @ [double_quote] @ ''>''
       @ [backslash] @ ''(x'' @ [backslash] @ '') is positive</span></p>''"
  by (simp add: md2html_def equationRegex_def exactly_one_equation_def convert_example
      del: convertMathJaxDelimiters.simps)

section \<open>Flattening and the font size\<close>

lemma map_of_update_decl:
  "map_of (update_decl p v ds) p' = (if p' = p then Some (v, []) else map_of ds p')"
  by (induction ds) auto

lemma getPropertyValue_setProperty:
  "getPropertyValue (setProperty p v st) p' = (if p' = p then v else getPropertyValue st p')"
  by (simp add: getPropertyValue_def setProperty_def map_of_update_decl split: option.split)

lemma getPropertyValue_promote:
  "getPropertyValue (promote_font_size c st) p =
     (if p = ''font-size'' \<and> getPropertyValue (style_of c) ''font-size'' \<noteq> []
      then getPropertyValue (style_of c) ''font-size'' else getPropertyValue st p)"
  by (simp add: promote_font_size_def Let_def getPropertyValue_setProperty)

lemma foldl_promote_font_size:
  "getPropertyValue (foldl (\<lambda>s c. promote_font_size c s) st es) ''font-size'' =
     (if filter (\<lambda>v. v \<noteq> []) (map (\<lambda>c. getPropertyValue (style_of c) ''font-size'') es) = []
      then getPropertyValue st ''font-size''
      else last (filter (\<lambda>v. v \<noteq> []) (map (\<lambda>c. getPropertyValue (style_of c) ''font-size'') es)))"
proof (induction es arbitrary: st)
  case Nil
  then show ?case by simp
next
  case (Cons c es)
  show ?case
    by (simp add: Cons.IH getPropertyValue_promote)
qed

lemma foldl_promote_other:
  "p \<noteq> ''font-size'' \<Longrightarrow>
   getPropertyValue (foldl (\<lambda>s c. promote_font_size c s) st es) p = getPropertyValue st p"
  by (induction es arbitrary: st) (simp_all add: getPropertyValue_promote)

text \<open>
  Claim C5, as the code has it.  While a text element is flattened, every child element that
  specifies a font size writes it to the parent's style, whether or not the parent has one
  of its own.  After flattening, the parent's font size is that of the last child element
  that specifies one; the parent keeps its own value exactly when no child element specifies
  a font size.  No other property of the parent's style changes.
\<close>

theorem flattenTextChildren_font_size:
  "getPropertyValue (style_of (flattenTextChildren env (Element t as st cs))) ''font-size'' =
     (if filter (\<lambda>v. v \<noteq> [])
           (map (\<lambda>c. getPropertyValue (style_of c) ''font-size'') (children (Element t as st cs))) = []
      then getPropertyValue st ''font-size''
      else last (filter (\<lambda>v. v \<noteq> [])
           (map (\<lambda>c. getPropertyValue (style_of c) ''font-size'') (children (Element t as st cs)))))
   \<and> (p = ''font-size'' \<or>
        getPropertyValue (style_of (flattenTextChildren env (Element t as st cs))) p
          = getPropertyValue st p)"
  using foldl_promote_other [of p st "filter is_element cs"]
  by (auto simp add: foldl_promote_font_size children_def)

text \<open>
  Claim C5 as the specification words it fails: a parent with \<open>font-size: 4px\<close> and a child
  with \<open>font-size: 10px\<close> ends with \<open>font-size: 10px\<close>.
\<close>

theorem flattenTextChildren_overwrites_counterexample:
  "getPropertyValue
     (style_of (flattenTextChildren plain_env
        (Element ''text'' [] (Some [(''font-size'', ''4px'', [])])
           [Element ''tspan'' [] (Some [(''font-size'', ''10px'', [])]) [Text ''a'']])))
     ''font-size'' = ''10px''"
  by (simp add: promote_font_size_def getPropertyValue_def setProperty_def)

theorem flattenTextChildren_font_size_witness:
  "getPropertyValue
     (style_of (flattenTextChildren plain_env
        (Element ''text'' [] (Some [(''font-family'', ''serif'', []), (''font-size'', ''4px'', [])])
           [Element ''tspan'' [] (Some [(''font-size'', ''10px'', [])]) [Text ''a''],
            Element ''tspan'' [] None [Text ''b'']])))
     ''font-size'' = ''10px''
   \<and> getPropertyValue
     (style_of (flattenTextChildren plain_env
        (Element ''text'' [] (Some [(''font-family'', ''serif'', []), (''font-size'', ''4px'', [])])
           [Element ''tspan'' [] (Some [(''font-size'', ''10px'', [])]) [Text ''a''],
            Element ''tspan'' [] None [Text ''b'']])))
     ''font-family'' = ''serif''"
  using flattenTextChildren_font_size [of plain_env "''text''" "[]"
      "Some [(''font-family'', ''serif'', []), (''font-size'', ''4px'', [])]"
      "[Element ''tspan'' [] (Some [(''font-size'', ''10px'', [])]) [Text ''a''],
        Element ''tspan'' [] None [Text ''b'']]" "''font-family''"]
  by (simp add: children_def getPropertyValue_def)

section \<open>The Text Converter and the font size\<close>

lemma fontSizeRegex_found:
  assumes "list_all is_digit_or_dot run" and "run \<noteq> []"
  shows "fontSizeRegex (run @ ''px'' @ post) \<noteq> None"
proof -
  obtain c cs where run: "run = c # cs"
    using assms(2) by (cases run) auto
  have "\<not> is_digit_or_dot (CHR ''p'')"
    by (simp add: is_digit_or_dot_def is_digit_def)
  then have "dropWhile is_digit_or_dot (run @ ''px'' @ post) = ''px'' @ post"
    using assms(1) by (induction run) auto
  then show ?thesis
    using assms(1) by (simp add: run)
qed

lemma fontSizeRegex_substring:
  "fontSizeRegex s \<noteq> None \<longleftrightarrow>
     (\<exists>pre run post. s = pre @ run @ ''px'' @ post \<and> run \<noteq> [] \<and> list_all is_digit_or_dot run)"
proof
  show "fontSizeRegex s \<noteq> None \<Longrightarrow>
      \<exists>pre run post. s = pre @ run @ ''px'' @ post \<and> run \<noteq> [] \<and> list_all is_digit_or_dot run"
  proof (induction s)
    case Nil
    then show ?case by simp
  next
    case (Cons c cs)
    show ?case
    proof (cases "is_digit_or_dot c \<and> take 2 (dropWhile is_digit_or_dot (c # cs)) = ''px''")
      case True
      let ?run = "takeWhile is_digit_or_dot (c # cs)"
      let ?rest = "dropWhile is_digit_or_dot (c # cs)"
      have "?rest = ''px'' @ drop 2 ?rest"
        using True by (metis append_take_drop_id)
      then have "c # cs = [] @ ?run @ ''px'' @ drop 2 ?rest"
        by (metis append_Nil takeWhile_dropWhile_id)
      moreover have "?run \<noteq> []"
        using True by simp
      moreover have "list_all is_digit_or_dot ?run"
        by (simp add: list_all_iff) (meson set_takeWhileD)
      ultimately show ?thesis
        by blast
    next
      case False
      then have "fontSizeRegex (c # cs) = fontSizeRegex cs"
        by (simp only: fontSizeRegex.simps if_False)
      then have "fontSizeRegex cs \<noteq> None"
        using Cons.prems by simp
      then obtain pre run post
        where "cs = pre @ run @ ''px'' @ post" "run \<noteq> []" "list_all is_digit_or_dot run"
        using Cons.IH by blast
      then have "c # cs = (c # pre) @ run @ ''px'' @ post \<and> run \<noteq> [] \<and> list_all is_digit_or_dot run"
        by simp
      then show ?thesis
        by blast
    qed
  qed
next
  assume "\<exists>pre run post. s = pre @ run @ ''px'' @ post \<and> run \<noteq> [] \<and> list_all is_digit_or_dot run"
  then obtain pre run post
    where s: "s = pre @ run @ ''px'' @ post" and run: "run \<noteq> []" "list_all is_digit_or_dot run"
    by blast
  have "fontSizeRegex (pre @ run @ ''px'' @ post) \<noteq> None"
  proof (induction pre)
    case Nil
    show ?case
      using fontSizeRegex_found [OF run(2) run(1)] by simp
  next
    case (Cons c pre)
    then show ?case
      by auto
  qed
  then show "fontSizeRegex s \<noteq> None"
    by (simp add: s)
qed

lemma prepend_to_first_element_Some:
  "list_ex is_element ns \<Longrightarrow> prepend_to_first_element sp m ns \<noteq> None"
proof (induction ns)
  case Nil
  then show ?case by simp
next
  case (Cons n ns)
  then show ?case by (cases n) auto
qed

lemma fontSizeRegex_16px: "fontSizeRegex ''16px'' = Some ''16''"
  by (simp add: is_digit_or_dot_def is_digit_def)

lemma font_size_of_foreignObject_style:
  "getPropertyValue (foreignObject_style e) ''font-size'' = effective_font_size e"
  by (simp add: foreignObject_style_def set_if_present_def getPropertyValue_setProperty)

lemma font_size_of_anchor:
  "anchor a st ns = (st', ns') \<Longrightarrow>
   getPropertyValue st' ''font-size'' = getPropertyValue st ''font-size''"
  by (auto simp add: anchor_def getPropertyValue_setProperty split: if_splits)

lemma convert_text_empty:
  "innerHTML env (flattenTextChildren env e) = [] \<Longrightarrow> convert_text env e = Inr None"
  by (simp add: convert_text_def)

lemma convert_text_no_px:
  assumes "innerHTML env (flattenTextChildren env e) \<noteq> []"
    and "fontSizeRegex (effective_font_size (flattenTextChildren env e)) = None"
  shows "convert_text env e = Inl TypeError"
  using assms by (simp add: convert_text_def Let_def)

lemma convert_text_default_size:
  assumes "innerHTML env (flattenTextChildren env e) \<noteq> []"
    and "getPropertyValue (style_of (flattenTextChildren env e)) ''font-size'' = []"
    and "list_ex is_element (parseHTML env (md2html env (innerHTML env (flattenTextChildren env e))))"
  shows "\<exists>fo. convert_text env e = Inr (Some fo) \<and> getPropertyValue (style_of fo) ''font-size'' = ''16px''"
proof -
  let ?e = "flattenTextChildren env e"
  have fs: "effective_font_size ?e = ''16px''"
    using assms(2) by (simp add: effective_font_size_def)
  have ns: "prepend_to_first_element sp m
      (parseHTML env (md2html env (innerHTML env ?e))) \<noteq> None" for sp m
    by (rule prepend_to_first_element_Some [OF assms(3)])
  show ?thesis
    using assms(1) ns
    by (auto simp add: convert_text_def Let_def fs fontSizeRegex_16px font_size_of_foreignObject_style
        split: prod.split option.split dest!: font_size_of_anchor
        simp del: fontSizeRegex.simps js_mul.simps js_toString.simps Math_ceil.simps)
qed

text \<open>
  Claim C10, as the code has it.  Take a \<open>text\<close> element whose content is not empty once its
  children are flattened.  If its font size after flattening (\<open>16px\<close> when none is set)
  holds no run of digits and points followed by \<open>px\<close>, the baseline compensation throws and
  no replacement block is produced.  If no font size is set and the converted markup has a
  top-level element for the baseline marker to go into, the conversion succeeds and the
  block has the font size \<open>16px\<close>.
\<close>

theorem convert_text_needs_px:
  assumes "innerHTML env (flattenTextChildren env e) \<noteq> []"
  shows "(fontSizeRegex (effective_font_size (flattenTextChildren env e)) = None
            \<longrightarrow> convert_text env e = Inl TypeError)
       \<and> (getPropertyValue (style_of (flattenTextChildren env e)) ''font-size'' = []
            \<and> list_ex is_element
                 (parseHTML env (md2html env (innerHTML env (flattenTextChildren env e))))
            \<longrightarrow> (\<exists>fo. convert_text env e = Inr (Some fo)
                   \<and> getPropertyValue (style_of fo) ''font-size'' = ''16px''))"
  using convert_text_no_px [OF assms] convert_text_default_size [OF assms]
  by blast

theorem convert_text_needs_px_witness:
  "convert_text plain_env (Element ''text'' [] (Some [(''font-size'', ''12pt'', [])]) [Text ''a''])
     = Inl TypeError
   \<and> convert_text plain_env (Element ''text'' [] (Some [(''font-size'', ''1.2em'', [])]) [Text ''a''])
     = Inl TypeError
   \<and> (\<exists>fo. convert_text plain_env (Element ''text'' [] None [Text ''a'']) = Inr (Some fo)
          \<and> getPropertyValue (style_of fo) ''font-size'' = ''16px'')"
  using
    convert_text_needs_px [of plain_env "Element ''text'' [] (Some [(''font-size'', ''12pt'', [])]) [Text ''a'']"]
    convert_text_needs_px [of plain_env "Element ''text'' [] (Some [(''font-size'', ''1.2em'', [])]) [Text ''a'']"]
    convert_text_needs_px [of plain_env "Element ''text'' [] None [Text ''a'']"]
  by (simp add: plain_env_def flatten_child_def effective_font_size_def getPropertyValue_def
      is_digit_or_dot_def is_digit_def)

text \<open>
  Claim C10 as stated fails for an element without content: its font size \<open>12pt\<close> holds no
  pixel size, and the converter removes the element without an exception.
\<close>

theorem convert_text_empty_counterexample:
  "fontSizeRegex ''12pt'' = None
   \<and> effective_font_size (Element ''text'' [] (Some [(''font-size'', ''12pt'', [])]) []) = ''12pt''
   \<and> convert_text plain_env (Element ''text'' [] (Some [(''font-size'', ''12pt'', [])]) []) = Inr None"
  by (simp add: convert_text_def plain_env_def effective_font_size_def getPropertyValue_def
      is_digit_or_dot_def is_digit_def)

end
